theory Spec2Isabelle
  imports
    Main
    "HOL-Library.Word"
    "HOL-Library.Char_ord"
    "HOL-Library.List_Lexorder"
begin

unbundle bit_operations_syntax

section \<open>Common data\<close>

text \<open>
  Bytes of a \<open>Uint8Array\<close> or \<open>ArrayBuffer\<close> are 8-bit words. JavaScript strings are
  modelled as \<open>string\<close>: a list of code units, compared and sorted code unit by code unit
  as JavaScript does. The platform's \<open>TextEncoder\<close>, \<open>TextDecoder\<close> and
  \<open>crypto.subtle.digest\<close> followed by \<open>btoa\<close> are parameters of the functions that use
  them (\<open>enc\<close>, \<open>dec\<close>, \<open>sha\<close>).
\<close>

type_synonym byte = "8 word"
type_synonym bytes = "byte list"

text \<open>
  Thrown values: the platform's RangeError and TypeError, an \<open>Error\<close> with its message,
  and any thrown value that is not an \<open>Error\<close>.
\<close>

datatype js_error = RangeError | TypeError | Error string | NonError

definition crlf :: string where
  "crlf = [CHR 0x0D, CHR 0x0A]"

definition startsWith :: "string \<Rightarrow> string \<Rightarrow> bool" where
  "startsWith s p = (take (length p) s = p)"

definition endsWith :: "string \<Rightarrow> string \<Rightarrow> bool" where
  "endsWith s p = (length p \<le> length s \<and> drop (length s - length p) s = p)"

definition lowerChar :: "char \<Rightarrow> char" where
  "lowerChar c =
     (if CHR ''A'' \<le> c \<and> c \<le> CHR ''Z'' then char_of (of_char c + (32 :: nat)) else c)"

text \<open>\<open>toLowerCase\<close>, on the ASCII letters.\<close>

definition toLowerCase :: "string \<Rightarrow> string" where
  "toLowerCase s = map lowerChar s"



fun includesStr :: "string \<Rightarrow> string \<Rightarrow> bool" where
  "includesStr [] p = (p = [])"
| "includesStr (c # cs) p = (startsWith (c # cs) p \<or> includesStr cs p)"

text \<open>\<open>Number.prototype.toString\<close> of an integer, in base 10 and in base 16.\<close>

function showNat :: "nat \<Rightarrow> string" where
  "showNat n =
     (if n < 10 then [''0123456789'' ! n]
      else showNat (n div 10) @ [''0123456789'' ! (n mod 10)])"
  by pat_completeness auto
termination
  by (relation "measure id") auto

declare showNat.simps [simp del]

definition showInt :: "int \<Rightarrow> string" where
  "showInt i = (if i < 0 then ''-'' @ showNat (nat (- i)) else showNat (nat i))"



section \<open>Compiled XML (axml-parser)\<close>

subsection \<open>Constants and records\<close>

abbreviation CHUNK_XML_START_ELEMENT :: nat where "CHUNK_XML_START_ELEMENT \<equiv> 0x00100102"
abbreviation CHUNK_XML_END_ELEMENT :: nat where "CHUNK_XML_END_ELEMENT \<equiv> 0x00100103"


record AXMLAttribute =
  attrNamespaceUri :: int
  attrName :: nat
  attrValueString :: int
  attrType :: int
  attrData :: int

record AXMLElement =
  chunkType :: nat
  lineNumber :: nat
  comment :: nat
  namespaceUri :: int
  elName :: nat
  attributes :: "AXMLAttribute list option"
  attributeStart :: "nat option"
  attributeSize :: "nat option"
  attributeCount :: "nat option"
  idIndex :: "nat option"
  classIndex :: "nat option"
  styleIndex :: "nat option"

record ParsedAXML =
  strings :: "string list"
  resourceIds :: "nat list"
  elements :: "AXMLElement list"
  rawData :: bytes
  stringPoolOffset :: nat
  stringPoolSize :: nat
  resourceIdsOffset :: nat
  resourceIdsSize :: nat
  elementsOffset :: nat

record ApkManifestInfo =
  packageName :: string
  versionCode :: int
  versionName :: string
  minSdkVersion :: int
  targetSdkVersion :: int
  isDebuggable :: bool
  permissions :: "string list"
  applicationName :: string

text \<open>
  The platform's string functions used by the codec: \<open>TextDecoder('utf-8').decode\<close>,
  \<open>String.fromCharCode\<close> and \<open>TextEncoder.encode\<close>.
\<close>

record codec =
  utf8Decode :: "bytes \<Rightarrow> string"
  fromCharCode :: "nat list \<Rightarrow> string"
  utf8Encode :: "string \<Rightarrow> bytes"

subsection \<open>DataReader\<close>
















subsection \<open>AXMLParser\<close>







definition plainElement :: "nat \<Rightarrow> nat \<Rightarrow> nat \<Rightarrow> int \<Rightarrow> nat \<Rightarrow> AXMLElement" where
  "plainElement ct ln cm ns nm =
     \<lparr>chunkType = ct, lineNumber = ln, comment = cm, namespaceUri = ns, elName = nm,
      attributes = None, attributeStart = None, attributeSize = None, attributeCount = None,
      idIndex = None, classIndex = None, styleIndex = None\<rparr>"













subsection \<open>AXMLModifier: manifest facts\<close>

text \<open>\<open>strings[i] || ''\<close>: an index outside the array gives \<open>undefined\<close>, hence the empty string.\<close>

definition strAt :: "string list \<Rightarrow> int \<Rightarrow> string" where
  "strAt ss i = (if 0 \<le> i \<and> i < int (length ss) then ss ! nat i else [])"

definition strOr :: "string list \<Rightarrow> int \<Rightarrow> string \<Rightarrow> string" where
  "strOr ss i alt = (if strAt ss i = [] then alt else strAt ss i)"

text \<open>\<open>s.replace(pat, rep)\<close> with a string pattern replaces the first occurrence only.\<close>

fun replaceFirst :: "string \<Rightarrow> string \<Rightarrow> string \<Rightarrow> string" where
  "replaceFirst [] pat rep = (if pat = [] then rep else [])"
| "replaceFirst (c # cs) pat rep =
     (if startsWith (c # cs) pat then rep @ drop (length pat) (c # cs)
      else c # replaceFirst cs pat rep)"

definition manifestAttr :: "string list \<Rightarrow> ApkManifestInfo \<Rightarrow> AXMLAttribute \<Rightarrow> ApkManifestInfo" where
  "manifestAttr ss info attr =
     (let nm = strAt ss (int (attrName attr)) in
      if nm = ''package''
      then info\<lparr>packageName := strOr ss (attrData attr) (showInt (attrData attr))\<rparr>
      else if nm = ''versionCode'' then info\<lparr>versionCode := attrData attr\<rparr>
      else if nm = ''versionName''
      then info\<lparr>versionName := strOr ss (attrValueString attr) (showInt (attrData attr))\<rparr>
      else info)"

definition usesSdkAttr :: "string list \<Rightarrow> ApkManifestInfo \<Rightarrow> AXMLAttribute \<Rightarrow> ApkManifestInfo" where
  "usesSdkAttr ss info attr =
     (let nm = strAt ss (int (attrName attr)) in
      if nm = ''minSdkVersion'' then info\<lparr>minSdkVersion := attrData attr\<rparr>
      else if nm = ''targetSdkVersion'' then info\<lparr>targetSdkVersion := attrData attr\<rparr>
      else info)"

definition applicationAttr :: "string list \<Rightarrow> ApkManifestInfo \<Rightarrow> AXMLAttribute \<Rightarrow> ApkManifestInfo" where
  "applicationAttr ss info attr =
     (let nm = strAt ss (int (attrName attr)) in
      if nm = ''debuggable'' then info\<lparr>isDebuggable := (attrData attr \<noteq> 0)\<rparr>
      else if nm = ''name'' then info\<lparr>applicationName := strAt ss (attrValueString attr)\<rparr>
      else info)"

definition permissionAttr :: "string list \<Rightarrow> ApkManifestInfo \<Rightarrow> AXMLAttribute \<Rightarrow> ApkManifestInfo" where
  "permissionAttr ss info attr =
     (let nm = strAt ss (int (attrName attr)) in
      if nm = ''name''
      then (let permission = strAt ss (attrValueString attr) in
            if permission \<noteq> []
            then info\<lparr>permissions :=
                   permissions info @ [replaceFirst permission ''android.permission.'' []]\<rparr>
            else info)
      else info)"

definition infoElement :: "string list \<Rightarrow> ApkManifestInfo \<Rightarrow> AXMLElement \<Rightarrow> ApkManifestInfo" where
  "infoElement ss info el =
     (if chunkType el = CHUNK_XML_START_ELEMENT
      then (let tagName = strAt ss (int (elName el));
                attrs = (case attributes el of None \<Rightarrow> [] | Some as \<Rightarrow> as);
                i1 = (if tagName = ''manifest'' then foldl (manifestAttr ss) info attrs else info);
                i2 = (if tagName = ''uses-sdk'' then foldl (usesSdkAttr ss) i1 attrs else i1);
                i3 = (if tagName = ''application'' then foldl (applicationAttr ss) i2 attrs else i2)
            in if tagName = ''uses-permission'' then foldl (permissionAttr ss) i3 attrs else i3)
      else info)"

definition getManifestInfo :: "ParsedAXML \<Rightarrow> ApkManifestInfo" where
  "getManifestInfo p =
     foldl (infoElement (strings p))
       \<lparr>packageName = [], versionCode = 0, versionName = [], minSdkVersion = 0,
        targetSdkVersion = 0, isDebuggable = False, permissions = [], applicationName = []\<rparr>
       (elements p)"

subsection \<open>DataWriter\<close>















subsection \<open>AXMLModifier: rebuilding the buffer\<close>



















subsection \<open>AXMLModifier: makeDebuggable\<close>











section \<open>JAR v1 signer (apk-signer)\<close>

subsection \<open>Line wrapping and entry blocks\<close>

function wrapLoop :: "string \<Rightarrow> string \<Rightarrow> string" where
  "wrapLoop result remaining =
     (if length remaining > 0
      then wrapLoop (result @ '' '' @ take 69 remaining @ crlf) (drop 69 remaining)
      else result)"
  by pat_completeness auto
termination
  by (relation "measure (\<lambda>(result, remaining). length remaining)") auto

declare wrapLoop.simps [simp del]

definition wrapLine :: "string \<Rightarrow> string" where
  "wrapLine line =
     (if length line \<le> 70 then line @ crlf
      else wrapLoop (take 70 line @ crlf) (drop 70 line))"

definition formatManifestEntry :: "string \<Rightarrow> string \<Rightarrow> string \<Rightarrow> string" where
  "formatManifestEntry name hash digestName =
     wrapLine (''Name: '' @ name) @ wrapLine (digestName @ '': '' @ hash) @ crlf"

subsection \<open>MANIFEST.MF\<close>

text \<open>
  A \<open>Map<string, ArrayBuffer>\<close> is an association list in insertion order; a JavaScript
  map has no two equal keys. \<open>files.get(name)!\<close> of a missing key hands \<open>undefined\<close> to
  the digest, which rejects with a TypeError.
\<close>

type_synonym file_map = "(string \<times> bytes) list"

definition manifestHeader :: string where
  "manifestHeader =
     ''Manifest-Version: 1.0'' @ crlf @ ''Created-By: 1.0 (APK Debugger)'' @ crlf @ crlf"

fun manifestLoop :: "(bytes \<Rightarrow> string) \<Rightarrow> file_map \<Rightarrow> string \<Rightarrow> string list \<Rightarrow> js_error + string" where
  "manifestLoop sha files manifest [] = Inr manifest"
| "manifestLoop sha files manifest (name # rest) =
     (if startsWith name ''META-INF/'' then manifestLoop sha files manifest rest
      else (case map_of files name of
              None \<Rightarrow> Inl TypeError
            | Some data \<Rightarrow>
                manifestLoop sha files
                  (manifest @ formatManifestEntry name (sha data) ''SHA-256-Digest'') rest))"

definition createManifestMF :: "(bytes \<Rightarrow> string) \<Rightarrow> file_map \<Rightarrow> js_error + string" where
  "createManifestMF sha files =
     (let sortedFiles = sort (map fst files)
      in manifestLoop sha files manifestHeader sortedFiles)"

subsection \<open>The signature file\<close>

text \<open>\<open>manifestMF.split('\r\n')\<close>: the pieces between the separators, at least one piece.\<close>

fun split_crlf :: "string \<Rightarrow> string list" where
  "split_crlf [] = [[]]"
| "split_crlf [c] = [[c]]"
| "split_crlf (c # d # cs) =
     (if c = CHR 0x0D \<and> d = CHR 0x0A then [] # split_crlf cs
      else (case split_crlf (d # cs) of
              [] \<Rightarrow> [[c]]
            | p # ps \<Rightarrow> (c # p) # ps))"

record sf_state =
  sf :: string
  currentEntry :: string
  currentName :: string

definition sfStep :: "(bytes \<Rightarrow> string) \<Rightarrow> (string \<Rightarrow> bytes) \<Rightarrow> sf_state \<Rightarrow> string \<Rightarrow> sf_state" where
  "sfStep sha enc st line =
     (if startsWith line ''Name: ''
      then st\<lparr>currentName := drop 6 line, currentEntry := line @ crlf\<rparr>
      else if startsWith line '' ''
      then st\<lparr>currentEntry := currentEntry st @ line @ crlf\<rparr>
      else if startsWith line ''SHA-256-Digest:'' \<or> startsWith line ''SHA256-Digest:''
      then st\<lparr>currentEntry := currentEntry st @ line @ crlf\<rparr>
      else if line = [] \<and> currentName st \<noteq> []
      then (let entry = currentEntry st @ crlf;
                entryHash = sha (enc entry)
            in \<lparr>sf = sf st @ formatManifestEntry (currentName st) entryHash ''SHA-256-Digest'',
                currentEntry = [], currentName = []\<rparr>)
      else st)"

definition sfHeader :: "string \<Rightarrow> string" where
  "sfHeader manifestHash =
     ''Signature-Version: 1.0'' @ crlf @
     ''SHA-256-Digest-Manifest: '' @ manifestHash @ crlf @
     ''Created-By: 1.0 (APK Debugger)'' @ crlf @ crlf"

definition createCertSF :: "(bytes \<Rightarrow> string) \<Rightarrow> (string \<Rightarrow> bytes) \<Rightarrow> string \<Rightarrow> file_map \<Rightarrow> string" where
  "createCertSF sha enc manifestMF files =
     (let manifestHash = sha (enc manifestMF);
          lines = split_crlf manifestMF
      in sf (foldl (sfStep sha enc)
               \<lparr>sf = sfHeader manifestHash, currentEntry = [], currentName = []\<rparr> lines))"



section \<open>APK processor (apk-processor)\<close>

subsection \<open>The archive adapter\<close>

text \<open>
  Modelled from the spec: the archive adapter is the JSZip library, which is not part of
  the repository. An archive is the list of its entries \<open>(name, is_directory, bytes)\<close> in
  enumeration order, with no two entries of one name. \<open>zipFile\<close> is \<open>zip.file(name)\<close>,
  which finds files and never directories; \<open>zipPut\<close> is \<open>zip.file(name, data)\<close>, which adds
  or overwrites one entry; \<open>zipRemove\<close> is \<open>zip.remove(name)\<close>.
\<close>

record zipEntry =
  entryName :: string
  entryDir :: bool
  entryData :: bytes

type_synonym archive = "zipEntry list"

definition zipFile :: "archive \<Rightarrow> string \<Rightarrow> zipEntry option" where
  "zipFile z path =
     (case find (\<lambda>e. entryName e = path) z of
        None \<Rightarrow> None
      | Some e \<Rightarrow> if entryDir e then None else Some e)"

definition zipPut :: "archive \<Rightarrow> string \<Rightarrow> bytes \<Rightarrow> archive" where
  "zipPut z path dat =
     (if path \<in> set (map entryName z)
      then map (\<lambda>e. if entryName e = path
                     then \<lparr>entryName = path, entryDir = False, entryData = dat\<rparr> else e) z
      else z @ [\<lparr>entryName = path, entryDir = False, entryData = dat\<rparr>])"


subsection \<open>Log events\<close>

text \<open>
  A log event is pushed to \<open>logs\<close> and then handed to the caller's callback. The callback is
  caller code: it may throw. It is called once for every event pushed, so what it does at a
  call is a function of the events so far: \<open>onLog lg\<close> is \<open>None\<close> when the callback returns
  after the last event of \<open>lg\<close>, and \<open>Some e\<close> when it throws \<open>e\<close>. The timestamp of an event
  is the wall clock and is left out.
\<close>

datatype logType = LInfo | LSuccess | LWarning | LError

record ProcessingLog =
  logKind :: logType
  message :: string

type_synonym logger = "ProcessingLog list \<Rightarrow> js_error option"

type_synonym 'a outcome = "(js_error \<times> ProcessingLog list) + ('a \<times> ProcessingLog list)"

definition log :: "logger \<Rightarrow> ProcessingLog list \<Rightarrow> logType \<Rightarrow> string
                    \<Rightarrow> (js_error \<times> ProcessingLog list) + ProcessingLog list" where
  "log onLog lg ty msg =
     (let lg' = lg @ [\<lparr>logKind = ty, message = msg\<rparr>] in
      case onLog lg' of Some e \<Rightarrow> Inl (e, lg') | None \<Rightarrow> Inr lg')"

text \<open>The collaborators of the processor that are not part of the repository.\<close>

record 'k env =
  loadAsync :: "bytes \<Rightarrow> js_error + archive"
  generateAsync :: "archive \<Rightarrow> js_error + bytes"
  generateSigningKey :: "js_error + 'k"
  createCertRSA :: "string \<Rightarrow> 'k \<Rightarrow> js_error + bytes"
  sha256Base64 :: "bytes \<Rightarrow> string"
  textCodec :: codec
  formatMB :: "nat \<Rightarrow> string"
  platformMessage :: "js_error \<Rightarrow> string"

subsection \<open>Bundles\<close>

definition isBaseName :: "string \<Rightarrow> bool" where
  "isBaseName path =
     (includesStr (toLowerCase path) ''base'' \<or> includesStr (toLowerCase path) ''universal''
      \<or> path = ''base.apk'')"

definition findApkFiles :: "archive \<Rightarrow> (string \<times> bool) list" where
  "findApkFiles bundleZip =
     map (\<lambda>e. (entryName e, isBaseName (entryName e)))
       (filter (\<lambda>e. endsWith (entryName e) ''.apk'' \<and> \<not> entryDir e) bundleZip)"

text \<open>
  \<open>apkFiles.find(f => f.isBase)?.name\<close>, and the first file when nothing was found or the
  name found is empty. The list is not empty where this is used.
\<close>

definition selectBase :: "(string \<times> bool) list \<Rightarrow> string" where
  "selectBase apkFiles =
     (case find snd apkFiles of
        None \<Rightarrow> fst (hd apkFiles)
      | Some f \<Rightarrow> if fst f = [] then fst (hd apkFiles) else fst f)"

definition mergeSplit :: "archive \<Rightarrow> archive \<Rightarrow> archive \<times> nat" where
  "mergeSplit mainZip splitZip =
     (let splitFiles =
            filter (\<lambda>e. \<not> entryDir e \<and> \<not> startsWith (entryName e) ''META-INF/''
                         \<and> zipFile mainZip (entryName e) = None) splitZip
      in (foldl (\<lambda>z e. zipPut z (entryName e) (entryData e)) mainZip splitFiles,
          length splitFiles))"

fun mergeSplits :: "'k env \<Rightarrow> logger \<Rightarrow> archive \<Rightarrow> string \<Rightarrow> (string \<times> bool) list
                     \<Rightarrow> archive \<Rightarrow> ProcessingLog list \<Rightarrow> archive outcome" where
  "mergeSplits ev onLog bundleZip baseApkPath [] mainZip lg = Inr (mainZip, lg)"
| "mergeSplits ev onLog bundleZip baseApkPath (apkFile # rest) mainZip lg =
     (if fst apkFile = baseApkPath
      then mergeSplits ev onLog bundleZip baseApkPath rest mainZip lg
      else (case log onLog lg LInfo (''Merging split: '' @ fst apkFile) of
              Inl x \<Rightarrow> Inl x
            | Inr lg1 \<Rightarrow>
                (case zipFile bundleZip (fst apkFile) of
                   None \<Rightarrow> Inl (TypeError, lg1)
                 | Some e \<Rightarrow>
                     (case loadAsync ev (entryData e) of
                        Inl er \<Rightarrow> Inl (er, lg1)
                      | Inr splitZip \<Rightarrow>
                          (case log onLog lg1 LSuccess
                                  (''Merged '' @ showNat (snd (mergeSplit mainZip splitZip))
                                   @ '' files from '' @ fst apkFile) of
                             Inl x \<Rightarrow> Inl x
                           | Inr lg2 \<Rightarrow>
                               mergeSplits ev onLog bundleZip baseApkPath rest
                                 (fst (mergeSplit mainZip splitZip)) lg2)))))"

definition processApksBundle :: "'k env \<Rightarrow> logger \<Rightarrow> bytes \<Rightarrow> ProcessingLog list \<Rightarrow> archive outcome" where
  "processApksBundle ev onLog arrayBuf lg =
     (case loadAsync ev arrayBuf of
        Inl er \<Rightarrow> Inl (er, lg)
      | Inr bundleZip \<Rightarrow>
          (let apkFiles = findApkFiles bundleZip in
           if length apkFiles = 0 then Inl (Error ''No APK files found in APKS bundle'', lg)
           else (case log onLog lg LInfo
                        (''Found '' @ showNat (length apkFiles) @ '' APK(s) in bundle'') of
                   Inl x \<Rightarrow> Inl x
                 | Inr lg1 \<Rightarrow>
                     (let baseApkPath = selectBase apkFiles in
                      case log onLog lg1 LInfo (''Base APK: '' @ baseApkPath) of
                        Inl x \<Rightarrow> Inl x
                      | Inr lg2 \<Rightarrow>
                          (case zipFile bundleZip baseApkPath of
                             None \<Rightarrow> Inl (TypeError, lg2)
                           | Some e \<Rightarrow>
                               (case loadAsync ev (entryData e) of
                                  Inl er \<Rightarrow> Inl (er, lg2)
                                | Inr mainZip \<Rightarrow>
                                    (case log onLog lg2 LSuccess ''Base APK extracted'' of
                                       Inl x \<Rightarrow> Inl x
                                     | Inr lg3 \<Rightarrow>
                                         (case mergeSplits ev onLog bundleZip baseApkPath apkFiles
                                                 mainZip lg3 of
                                            Inl x \<Rightarrow> Inl x
                                          | Inr (merged, lg4) \<Rightarrow>
                                              (case log onLog lg4 LSuccess
                                                      ''All splits merged into single APK'' of
                                                 Inl x \<Rightarrow> Inl x
                                               | Inr lg5 \<Rightarrow> Inr (merged, lg5))))))))))"

subsection \<open>Signatures, file collection, the binary patch\<close>



definition collectFiles :: "archive \<Rightarrow> file_map" where
  "collectFiles z = map (\<lambda>e. (entryName e, entryData e)) (filter (\<lambda>e. \<not> entryDir e) z)"




subsection \<open>processApk\<close>













section \<open>Notions used to state the properties\<close>

subsection \<open>Bundles\<close>

text \<open>
  The base selection as the specification words it: the first name whose lower-case form
  is \<open>base.apk\<close>, else the first that contains \<open>base\<close>, else the first that contains
  \<open>universal\<close>, else the first name.
\<close>

definition specSelectBase :: "string list \<Rightarrow> string" where
  "specSelectBase names =
     (case find (\<lambda>n. toLowerCase n = ''base.apk'') names of
        Some n \<Rightarrow> n
      | None \<Rightarrow>
          (case find (\<lambda>n. includesStr (toLowerCase n) ''base'') names of
             Some n \<Rightarrow> n
           | None \<Rightarrow>
               (case find (\<lambda>n. includesStr (toLowerCase n) ''universal'') names of
                  Some n \<Rightarrow> n
                | None \<Rightarrow> hd names)))"

text \<open>The split archives of a bundle: every nested archive but the base, loaded.\<close>

definition splitArchives :: "'k env \<Rightarrow> archive \<Rightarrow> string \<Rightarrow> (string \<times> bool) list \<Rightarrow> archive list" where
  "splitArchives ev bundleZip baseApkPath apkFiles =
     concat (map (\<lambda>f. if fst f = baseApkPath then []
                        else (case zipFile bundleZip (fst f) of
                                None \<Rightarrow> []
                              | Some e \<Rightarrow> (case loadAsync ev (entryData e) of
                                             Inl er \<Rightarrow> []
                                           | Inr z \<Rightarrow> [z]))) apkFiles)"

text \<open>
  An entry that the merge took from a split: a file, not under \<open>META-INF/\<close>, with the name
  and the bytes of a file of the split.
\<close>

definition fromSplit :: "archive \<Rightarrow> zipEntry \<Rightarrow> bool" where
  "fromSplit splitZip e =
     (\<not> entryDir e \<and> \<not> startsWith (entryName e) ''META-INF/'' \<and>
      list_ex (\<lambda>s. \<not> entryDir s \<and> entryName s = entryName e \<and> entryData s = entryData e) splitZip)"

subsection \<open>Manifest lines\<close>


subsection \<open>Compiled XML\<close>












section \<open>Sample inputs\<close>


text \<open>An archive with a directory and an old signature file.\<close>

definition sampleArchive :: archive where
  "sampleArchive =
     [\<lparr>entryName = ''a/y'', entryDir = False, entryData = [0x01]\<rparr>,
      \<lparr>entryName = ''a/'', entryDir = True, entryData = []\<rparr>,
      \<lparr>entryName = ''a/x'', entryDir = False, entryData = [0x00]\<rparr>,
      \<lparr>entryName = ''META-INF/OLD.SF'', entryDir = False, entryData = [0x09]\<rparr>]"

text \<open>
  An entry name of 74 characters, the Base64 SHA-256 digest of the empty file, and the
  \<open>MANIFEST.MF\<close> of the archive that holds the empty file under that name.
\<close>

definition longName :: string where
  "longName = ''res/drawable-xxhdpi-v4/abc_btn_switch_to_on_mtrl_00012_nine_patch_file.png''"

definition emptyDigest :: string where
  "emptyDigest = ''47DEQpj8HBSa+/TImW+5JCeuQeRkm5NMpJWZG3hSuFU=''"

definition longManifest :: string where
  "longManifest = manifestHeader @ formatManifestEntry longName emptyDigest ''SHA-256-Digest''"

definition sampleBundle :: archive where
  "sampleBundle =
     [\<lparr>entryName = ''universal.apk'', entryDir = False, entryData = [1]\<rparr>,
      \<lparr>entryName = ''base.apk'', entryDir = False, entryData = [2]\<rparr>]"

definition sampleBase :: archive where
  "sampleBase = [\<lparr>entryName = ''res/x'', entryDir = False, entryData = [0x41]\<rparr>]"

definition sampleSplit :: archive where
  "sampleSplit =
     [\<lparr>entryName = ''res/'', entryDir = True, entryData = []\<rparr>,
      \<lparr>entryName = ''res/x'', entryDir = False, entryData = [0x42]\<rparr>,
      \<lparr>entryName = ''res/y'', entryDir = False, entryData = [0x43]\<rparr>,
      \<lparr>entryName = ''META-INF/MANIFEST.MF'', entryDir = False, entryData = [0x44]\<rparr>]"

definition sampleApks :: archive where
  "sampleApks =
     [\<lparr>entryName = ''split_config.en.apk'', entryDir = False, entryData = [2]\<rparr>,
      \<lparr>entryName = ''base.apk'', entryDir = False, entryData = [1]\<rparr>]"

definition sampleLoad :: "bytes \<Rightarrow> js_error + archive" where
  "sampleLoad b =
     (if b = [0] then Inr sampleApks
      else if b = [1] then Inr sampleBase
      else if b = [2] then Inr sampleSplit
      else if b = [3] then Inr []
      else Inl (Error ''not a zip''))"

definition sampleEnv :: "unit env" where
  "sampleEnv =
     \<lparr>loadAsync = sampleLoad, generateAsync = (\<lambda>z. Inl NonError),
      generateSigningKey = Inl NonError, createCertRSA = (\<lambda>s k. Inl NonError),
      sha256Base64 = (\<lambda>b. []),
      textCodec = \<lparr>utf8Decode = (\<lambda>b. []), fromCharCode = (\<lambda>c. []), utf8Encode = (\<lambda>s. [])\<rparr>,
      formatMB = (\<lambda>n. ''0.00''), platformMessage = (\<lambda>e. [])\<rparr>"

definition sampleMerged :: archive where
  "sampleMerged =
     [\<lparr>entryName = ''res/x'', entryDir = False, entryData = [0x41]\<rparr>,
      \<lparr>entryName = ''res/y'', entryDir = False, entryData = [0x43]\<rparr>]"

definition sampleMergeLogs :: "ProcessingLog list" where
  "sampleMergeLogs =
     [\<lparr>logKind = LInfo, message = ''Found 2 APK(s) in bundle''\<rparr>,
      \<lparr>logKind = LInfo, message = ''Base APK: base.apk''\<rparr>,
      \<lparr>logKind = LSuccess, message = ''Base APK extracted''\<rparr>,
      \<lparr>logKind = LInfo, message = ''Merging split: split_config.en.apk''\<rparr>,
      \<lparr>logKind = LSuccess, message = ''Merged 1 files from split_config.en.apk''\<rparr>,
      \<lparr>logKind = LSuccess, message = ''All splits merged into single APK''\<rparr>]"

text \<open>
  A parsed manifest with two \<open>uses-permission\<close> elements: a vendor permission whose name
  contains \<open>android.permission.\<close> in the middle, and a platform permission.
\<close>

definition samplePermissions :: ParsedAXML where
  "samplePermissions =
     \<lparr>strings = [''uses-permission'', ''name'', ''com.vendor.android.permission.FOO'',
                 ''android.permission.INTERNET''],
      resourceIds = [0x01010003],
      elements =
        [\<lparr>chunkType = CHUNK_XML_START_ELEMENT, lineNumber = 1, comment = 0xFFFFFFFF,
          namespaceUri = - 1, elName = 0,
          attributes = Some [\<lparr>attrNamespaceUri = - 1, attrName = 1, attrValueString = 2,
                               attrType = 3, attrData = 2\<rparr>],
          attributeStart = Some 20, attributeSize = Some 20, attributeCount = Some 1,
          idIndex = Some 0, classIndex = Some 0, styleIndex = Some 0\<rparr>,
         \<lparr>chunkType = CHUNK_XML_START_ELEMENT, lineNumber = 2, comment = 0xFFFFFFFF,
          namespaceUri = - 1, elName = 0,
          attributes = Some [\<lparr>attrNamespaceUri = - 1, attrName = 1, attrValueString = 3,
                               attrType = 3, attrData = 3\<rparr>],
          attributeStart = Some 20, attributeSize = Some 20, attributeCount = Some 1,
          idIndex = Some 0, classIndex = Some 0, styleIndex = Some 0\<rparr>],
      rawData = [], stringPoolOffset = 8, stringPoolSize = 0, resourceIdsOffset = 0,
      resourceIdsSize = 0, elementsOffset = 0\<rparr>"











definition xmlInsert :: bytes where
  "xmlInsert =
     [0x03, 0x00, 0x08, 0x00, 0xE8, 0x00, 0x00, 0x00, 0x01, 0x00, 0x1C, 0x00, 0x84, 0x00, 0x00, 0x00,
      0x04, 0x00, 0x00, 0x00, 0x00, 0x00, 0x00, 0x00, 0x00, 0x01, 0x00, 0x00, 0x24, 0x00, 0x00, 0x00,
      0x00, 0x00, 0x00, 0x00, 0x00, 0x00, 0x00, 0x00, 0x0E, 0x00, 0x00, 0x00, 0x1B, 0x00, 0x00, 0x00,
      0x48, 0x00, 0x00, 0x00, 0x0B, 0x0B, 0x61, 0x6C, 0x6C, 0x6F, 0x77, 0x42, 0x61, 0x63, 0x6B, 0x75,
      0x70, 0x00, 0x0A, 0x0A, 0x64, 0x65, 0x62, 0x75, 0x67, 0x67, 0x61, 0x62, 0x6C, 0x65, 0x00, 0x2A,
      0x2A, 0x68, 0x74, 0x74, 0x70, 0x3A, 0x2F, 0x2F, 0x73, 0x63, 0x68, 0x65, 0x6D, 0x61, 0x73, 0x2E,
      0x61, 0x6E, 0x64, 0x72, 0x6F, 0x69, 0x64, 0x2E, 0x63, 0x6F, 0x6D, 0x2F, 0x61, 0x70, 0x6B, 0x2F,
      0x72, 0x65, 0x73, 0x2F, 0x61, 0x6E, 0x64, 0x72, 0x6F, 0x69, 0x64, 0x00, 0x0B, 0x0B, 0x61, 0x70,
      0x70, 0x6C, 0x69, 0x63, 0x61, 0x74, 0x69, 0x6F, 0x6E, 0x00, 0x00, 0x00, 0x80, 0x01, 0x08, 0x00,
      0x0C, 0x00, 0x00, 0x00, 0x80, 0x02, 0x01, 0x01, 0x02, 0x01, 0x10, 0x00, 0x38, 0x00, 0x00, 0x00,
      0x02, 0x00, 0x00, 0x00, 0xFF, 0xFF, 0xFF, 0xFF, 0xFF, 0xFF, 0xFF, 0xFF, 0x03, 0x00, 0x00, 0x00,
      0x14, 0x00, 0x14, 0x00, 0x01, 0x00, 0x00, 0x00, 0x00, 0x00, 0x00, 0x00, 0x02, 0x00, 0x00, 0x00,
      0x00, 0x00, 0x00, 0x00, 0xFF, 0xFF, 0xFF, 0xFF, 0x08, 0x00, 0x00, 0x12, 0xFF, 0xFF, 0xFF, 0xFF,
      0x03, 0x01, 0x10, 0x00, 0x18, 0x00, 0x00, 0x00, 0x03, 0x00, 0x00, 0x00, 0xFF, 0xFF, 0xFF, 0xFF,
      0xFF, 0xFF, 0xFF, 0xFF, 0x03, 0x00, 0x00, 0x00]"

definition xmlInsertParsed :: ParsedAXML where
  "xmlInsertParsed =
     \<lparr>strings = [''allowBackup'', ''debuggable'', ''http://schemas.android.com/apk/res/android'', ''application''],
      resourceIds = [0x01010280],
      elements =
        [\<lparr>chunkType = CHUNK_XML_START_ELEMENT, lineNumber = 2, comment = 0xFFFFFFFF,
          namespaceUri = - 1, elName = 3,
          attributes = Some
             [\<lparr>attrNamespaceUri = 2, attrName = 0, attrValueString = - 1,
                attrType = 0x12, attrData = - 1\<rparr>],
          attributeStart = Some 20, attributeSize = Some 20, attributeCount = Some 1,
          idIndex = Some 0, classIndex = Some 0, styleIndex = Some 0\<rparr>,
         plainElement CHUNK_XML_END_ELEMENT 3 0xFFFFFFFF (- 1) 3],
      rawData = xmlInsert, stringPoolOffset = 8, stringPoolSize = 132,
      resourceIdsOffset = 140, resourceIdsSize = 12, elementsOffset = 152\<rparr>"

definition xmlInsertOut :: bytes where
  "xmlInsertOut =
     [0x03, 0x00, 0x08, 0x00, 0xFC, 0x00, 0x00, 0x00, 0x01, 0x00, 0x1C, 0x00, 0x84, 0x00, 0x00, 0x00,
      0x04, 0x00, 0x00, 0x00, 0x00, 0x00, 0x00, 0x00, 0x00, 0x01, 0x00, 0x00, 0x24, 0x00, 0x00, 0x00,
      0x00, 0x00, 0x00, 0x00, 0x00, 0x00, 0x00, 0x00, 0x0E, 0x00, 0x00, 0x00, 0x1B, 0x00, 0x00, 0x00,
      0x48, 0x00, 0x00, 0x00, 0x0B, 0x0B, 0x61, 0x6C, 0x6C, 0x6F, 0x77, 0x42, 0x61, 0x63, 0x6B, 0x75,
      0x70, 0x00, 0x0A, 0x0A, 0x64, 0x65, 0x62, 0x75, 0x67, 0x67, 0x61, 0x62, 0x6C, 0x65, 0x00, 0x2A,
      0x2A, 0x68, 0x74, 0x74, 0x70, 0x3A, 0x2F, 0x2F, 0x73, 0x63, 0x68, 0x65, 0x6D, 0x61, 0x73, 0x2E,
      0x61, 0x6E, 0x64, 0x72, 0x6F, 0x69, 0x64, 0x2E, 0x63, 0x6F, 0x6D, 0x2F, 0x61, 0x70, 0x6B, 0x2F,
      0x72, 0x65, 0x73, 0x2F, 0x61, 0x6E, 0x64, 0x72, 0x6F, 0x69, 0x64, 0x00, 0x0B, 0x0B, 0x61, 0x70,
      0x70, 0x6C, 0x69, 0x63, 0x61, 0x74, 0x69, 0x6F, 0x6E, 0x00, 0x00, 0x00, 0x80, 0x01, 0x08, 0x00,
      0x0C, 0x00, 0x00, 0x00, 0x80, 0x02, 0x01, 0x01, 0x02, 0x01, 0x10, 0x00, 0x4C, 0x00, 0x00, 0x00,
      0x02, 0x00, 0x00, 0x00, 0xFF, 0xFF, 0xFF, 0xFF, 0xFF, 0xFF, 0xFF, 0xFF, 0x03, 0x00, 0x00, 0x00,
      0x14, 0x00, 0x14, 0x00, 0x02, 0x00, 0x00, 0x00, 0x00, 0x00, 0x00, 0x00, 0x02, 0x00, 0x00, 0x00,
      0x00, 0x00, 0x00, 0x00, 0xFF, 0xFF, 0xFF, 0xFF, 0x08, 0x00, 0x00, 0x12, 0xFF, 0xFF, 0xFF, 0xFF,
      0x02, 0x00, 0x00, 0x00, 0x01, 0x00, 0x00, 0x00, 0xFF, 0xFF, 0xFF, 0xFF, 0x08, 0x00, 0x00, 0x12,
      0xFF, 0xFF, 0xFF, 0xFF, 0x03, 0x01, 0x10, 0x00, 0x18, 0x00, 0x00, 0x00, 0x03, 0x00, 0x00, 0x00,
      0xFF, 0xFF, 0xFF, 0xFF, 0xFF, 0xFF, 0xFF, 0xFF, 0x03, 0x00, 0x00, 0x00]"

definition xmlInsertRebuilt :: bytes where
  "xmlInsertRebuilt =
     [0x03, 0x00, 0x08, 0x00, 0x00, 0x01, 0x00, 0x00, 0x01, 0x00, 0x1C, 0x00, 0x84, 0x00, 0x00, 0x00,
      0x04, 0x00, 0x00, 0x00, 0x00, 0x00, 0x00, 0x00, 0x00, 0x01, 0x00, 0x00, 0x24, 0x00, 0x00, 0x00,
      0x00, 0x00, 0x00, 0x00, 0x00, 0x00, 0x00, 0x00, 0x0E, 0x00, 0x00, 0x00, 0x1B, 0x00, 0x00, 0x00,
      0x48, 0x00, 0x00, 0x00, 0x0B, 0x0B, 0x61, 0x6C, 0x6C, 0x6F, 0x77, 0x42, 0x61, 0x63, 0x6B, 0x75,
      0x70, 0x00, 0x0A, 0x0A, 0x64, 0x65, 0x62, 0x75, 0x67, 0x67, 0x61, 0x62, 0x6C, 0x65, 0x00, 0x2A,
      0x2A, 0x68, 0x74, 0x74, 0x70, 0x3A, 0x2F, 0x2F, 0x73, 0x63, 0x68, 0x65, 0x6D, 0x61, 0x73, 0x2E,
      0x61, 0x6E, 0x64, 0x72, 0x6F, 0x69, 0x64, 0x2E, 0x63, 0x6F, 0x6D, 0x2F, 0x61, 0x70, 0x6B, 0x2F,
      0x72, 0x65, 0x73, 0x2F, 0x61, 0x6E, 0x64, 0x72, 0x6F, 0x69, 0x64, 0x00, 0x0B, 0x0B, 0x61, 0x70,
      0x70, 0x6C, 0x69, 0x63, 0x61, 0x74, 0x69, 0x6F, 0x6E, 0x00, 0x00, 0x00, 0x80, 0x01, 0x08, 0x00,
      0x10, 0x00, 0x00, 0x00, 0x80, 0x02, 0x01, 0x01, 0x0F, 0x00, 0x01, 0x01, 0x02, 0x01, 0x10, 0x00,
      0x4C, 0x00, 0x00, 0x00, 0x02, 0x00, 0x00, 0x00, 0xFF, 0xFF, 0xFF, 0xFF, 0xFF, 0xFF, 0xFF, 0xFF,
      0x03, 0x00, 0x00, 0x00, 0x14, 0x00, 0x14, 0x00, 0x02, 0x00, 0x00, 0x00, 0x00, 0x00, 0x00, 0x00,
      0x02, 0x00, 0x00, 0x00, 0x00, 0x00, 0x00, 0x00, 0xFF, 0xFF, 0xFF, 0xFF, 0x08, 0x00, 0x00, 0x12,
      0xFF, 0xFF, 0xFF, 0xFF, 0x02, 0x00, 0x00, 0x00, 0x01, 0x00, 0x00, 0x00, 0xFF, 0xFF, 0xFF, 0xFF,
      0x08, 0x00, 0x00, 0x12, 0xFF, 0xFF, 0xFF, 0xFF, 0x03, 0x01, 0x10, 0x00, 0x18, 0x00, 0x00, 0x00,
      0x03, 0x00, 0x00, 0x00, 0xFF, 0xFF, 0xFF, 0xFF, 0xFF, 0xFF, 0xFF, 0xFF, 0x03, 0x00, 0x00, 0x00]"

definition xmlRebuild :: bytes where
  "xmlRebuild =
     [0x03, 0x00, 0x08, 0x00, 0xD0, 0x00, 0x00, 0x00, 0x01, 0x00, 0x1C, 0x00, 0x6C, 0x00, 0x00, 0x00,
      0x03, 0x00, 0x00, 0x00, 0x00, 0x00, 0x00, 0x00, 0x00, 0x01, 0x00, 0x00, 0x20, 0x00, 0x00, 0x00,
      0x00, 0x00, 0x00, 0x00, 0x00, 0x00, 0x00, 0x00, 0x08, 0x00, 0x00, 0x00, 0x35, 0x00, 0x00, 0x00,
      0x05, 0x05, 0x6C, 0x61, 0x62, 0x65, 0x6C, 0x00, 0x2A, 0x2A, 0x68, 0x74, 0x74, 0x70, 0x3A, 0x2F,
      0x2F, 0x73, 0x63, 0x68, 0x65, 0x6D, 0x61, 0x73, 0x2E, 0x61, 0x6E, 0x64, 0x72, 0x6F, 0x69, 0x64,
      0x2E, 0x63, 0x6F, 0x6D, 0x2F, 0x61, 0x70, 0x6B, 0x2F, 0x72, 0x65, 0x73, 0x2F, 0x61, 0x6E, 0x64,
      0x72, 0x6F, 0x69, 0x64, 0x00, 0x0B, 0x0B, 0x61, 0x70, 0x70, 0x6C, 0x69, 0x63, 0x61, 0x74, 0x69,
      0x6F, 0x6E, 0x00, 0x00, 0x80, 0x01, 0x08, 0x00, 0x0C, 0x00, 0x00, 0x00, 0x01, 0x00, 0x01, 0x01,
      0x02, 0x01, 0x10, 0x00, 0x38, 0x00, 0x00, 0x00, 0x02, 0x00, 0x00, 0x00, 0xFF, 0xFF, 0xFF, 0xFF,
      0xFF, 0xFF, 0xFF, 0xFF, 0x02, 0x00, 0x00, 0x00, 0x14, 0x00, 0x14, 0x00, 0x01, 0x00, 0x00, 0x00,
      0x00, 0x00, 0x00, 0x00, 0x01, 0x00, 0x00, 0x00, 0x00, 0x00, 0x00, 0x00, 0xFF, 0xFF, 0xFF, 0xFF,
      0x08, 0x00, 0x00, 0x01, 0x00, 0x00, 0x04, 0x7F, 0x03, 0x01, 0x10, 0x00, 0x18, 0x00, 0x00, 0x00,
      0x03, 0x00, 0x00, 0x00, 0xFF, 0xFF, 0xFF, 0xFF, 0xFF, 0xFF, 0xFF, 0xFF, 0x02, 0x00, 0x00, 0x00]"

definition xmlRebuildParsed :: ParsedAXML where
  "xmlRebuildParsed =
     \<lparr>strings = [''label'', ''http://schemas.android.com/apk/res/android'', ''application''],
      resourceIds = [0x01010001],
      elements =
        [\<lparr>chunkType = CHUNK_XML_START_ELEMENT, lineNumber = 2, comment = 0xFFFFFFFF,
          namespaceUri = - 1, elName = 2,
          attributes = Some
             [\<lparr>attrNamespaceUri = 1, attrName = 0, attrValueString = - 1,
                attrType = 0x01, attrData = 2130968576\<rparr>],
          attributeStart = Some 20, attributeSize = Some 20, attributeCount = Some 1,
          idIndex = Some 0, classIndex = Some 0, styleIndex = Some 0\<rparr>,
         plainElement CHUNK_XML_END_ELEMENT 3 0xFFFFFFFF (- 1) 2],
      rawData = xmlRebuild, stringPoolOffset = 8, stringPoolSize = 108,
      resourceIdsOffset = 116, resourceIdsSize = 12, elementsOffset = 128\<rparr>"

definition xmlRebuildOut :: bytes where
  "xmlRebuildOut =
     [0x03, 0x00, 0x08, 0x00, 0xF8, 0x00, 0x00, 0x00, 0x01, 0x00, 0x1C, 0x00, 0x7C, 0x00, 0x00, 0x00,
      0x04, 0x00, 0x00, 0x00, 0x00, 0x00, 0x00, 0x00, 0x00, 0x01, 0x00, 0x00, 0x24, 0x00, 0x00, 0x00,
      0x00, 0x00, 0x00, 0x00, 0x00, 0x00, 0x00, 0x00, 0x08, 0x00, 0x00, 0x00, 0x35, 0x00, 0x00, 0x00,
      0x43, 0x00, 0x00, 0x00, 0x05, 0x05, 0x6C, 0x61, 0x62, 0x65, 0x6C, 0x00, 0x2A, 0x2A, 0x68, 0x74,
      0x74, 0x70, 0x3A, 0x2F, 0x2F, 0x73, 0x63, 0x68, 0x65, 0x6D, 0x61, 0x73, 0x2E, 0x61, 0x6E, 0x64,
      0x72, 0x6F, 0x69, 0x64, 0x2E, 0x63, 0x6F, 0x6D, 0x2F, 0x61, 0x70, 0x6B, 0x2F, 0x72, 0x65, 0x73,
      0x2F, 0x61, 0x6E, 0x64, 0x72, 0x6F, 0x69, 0x64, 0x00, 0x0B, 0x0B, 0x61, 0x70, 0x70, 0x6C, 0x69,
      0x63, 0x61, 0x74, 0x69, 0x6F, 0x6E, 0x00, 0x0A, 0x0A, 0x64, 0x65, 0x62, 0x75, 0x67, 0x67, 0x61,
      0x62, 0x6C, 0x65, 0x00, 0x80, 0x01, 0x08, 0x00, 0x10, 0x00, 0x00, 0x00, 0x01, 0x00, 0x01, 0x01,
      0x0F, 0x00, 0x01, 0x01, 0x02, 0x01, 0x10, 0x00, 0x4C, 0x00, 0x00, 0x00, 0x02, 0x00, 0x00, 0x00,
      0xFF, 0xFF, 0xFF, 0xFF, 0xFF, 0xFF, 0xFF, 0xFF, 0x02, 0x00, 0x00, 0x00, 0x14, 0x00, 0x14, 0x00,
      0x02, 0x00, 0x00, 0x00, 0x00, 0x00, 0x00, 0x00, 0x01, 0x00, 0x00, 0x00, 0x00, 0x00, 0x00, 0x00,
      0xFF, 0xFF, 0xFF, 0xFF, 0x08, 0x00, 0x00, 0x01, 0x00, 0x00, 0x04, 0x7F, 0x01, 0x00, 0x00, 0x00,
      0x03, 0x00, 0x00, 0x00, 0xFF, 0xFF, 0xFF, 0xFF, 0x08, 0x00, 0x00, 0x12, 0xFF, 0xFF, 0xFF, 0xFF,
      0x03, 0x01, 0x10, 0x00, 0x18, 0x00, 0x00, 0x00, 0x03, 0x00, 0x00, 0x00, 0xFF, 0xFF, 0xFF, 0xFF,
      0xFF, 0xFF, 0xFF, 0xFF, 0x02, 0x00, 0x00, 0x00]"

definition xmlRebuildOutParsed :: ParsedAXML where
  "xmlRebuildOutParsed =
     \<lparr>strings = [''label'', ''http://schemas.android.com/apk/res/android'', ''application'', ''debuggable''],
      resourceIds = [0x01010001, 0x0101000f],
      elements =
        [\<lparr>chunkType = CHUNK_XML_START_ELEMENT, lineNumber = 2, comment = 0xFFFFFFFF,
          namespaceUri = - 1, elName = 2,
          attributes = Some
             [\<lparr>attrNamespaceUri = 1, attrName = 0, attrValueString = - 1,
                attrType = 0x01, attrData = 2130968576\<rparr>,
              \<lparr>attrNamespaceUri = 1, attrName = 3, attrValueString = - 1,
                attrType = 0x12, attrData = - 1\<rparr>],
          attributeStart = Some 20, attributeSize = Some 20, attributeCount = Some 2,
          idIndex = Some 0, classIndex = Some 0, styleIndex = Some 0\<rparr>,
         plainElement CHUNK_XML_END_ELEMENT 3 0xFFFFFFFF (- 1) 2],
      rawData = xmlRebuildOut, stringPoolOffset = 8, stringPoolSize = 124,
      resourceIdsOffset = 132, resourceIdsSize = 16, elementsOffset = 148\<rparr>"

section \<open>Properties of the signer\<close>

























lemma sampleArchive_manifest:
  "createManifestMF (\<lambda>d. emptyDigest) (collectFiles sampleArchive) =
     Inr (''Manifest-Version: 1.0'' @ crlf @ ''Created-By: 1.0 (APK Debugger)'' @ crlf @ crlf @
          ''Name: a/x'' @ crlf @
          ''SHA-256-Digest: 47DEQpj8HBSa+/TImW+5JCeuQeRkm5NMpJWZG3hSuFU='' @ crlf @ crlf @
          ''Name: a/y'' @ crlf @
          ''SHA-256-Digest: 47DEQpj8HBSa+/TImW+5JCeuQeRkm5NMpJWZG3hSuFU='' @ crlf @ crlf)"
  by code_simp



lemma longManifest_lines:
  "split_crlf longManifest =
     [''Manifest-Version: 1.0'', ''Created-By: 1.0 (APK Debugger)'', [],
      ''Name: res/drawable-xxhdpi-v4/abc_btn_switch_to_on_mtrl_00012_nine_patc'',
      '' h_file.png'', ''SHA-256-Digest: 47DEQpj8HBSa+/TImW+5JCeuQeRkm5NMpJWZG3hSuFU='', [], []]"
  by code_simp

lemma longManifest_block:
  "formatManifestEntry longName emptyDigest ''SHA-256-Digest'' =
     ''Name: res/drawable-xxhdpi-v4/abc_btn_switch_to_on_mtrl_00012_nine_patc'' @ crlf @
     '' h_file.png'' @ crlf @
     ''SHA-256-Digest: 47DEQpj8HBSa+/TImW+5JCeuQeRkm5NMpJWZG3hSuFU='' @ crlf @ crlf"
  by code_simp

lemma longName_head:
  "take 64 longName = ''res/drawable-xxhdpi-v4/abc_btn_switch_to_on_mtrl_00012_nine_patc''"
  by (simp add: longName_def)

lemma longManifest_is_manifest:
  "sha [] = emptyDigest \<Longrightarrow> createManifestMF sha [(longName, [])] = Inr longManifest"
  by (simp add: createManifestMF_def longManifest_def startsWith_def longName_def)

text \<open>
  C3 (the code departs from the claim). The archive holds one empty file whose name has
  74 characters, so that its \<open>Name\<close> line is wrapped in \<open>MANIFEST.MF\<close>. The signature
  file then has the digest of the whole manifest and one block; the digest of the block is
  taken over the bytes of the manifest's block, but the \<open>Name\<close> of the block is only the
  first 64 characters of the entry name, not the full name.
\<close>

theorem createCertSF_truncates_wrapped_name:
  "createCertSF sha enc longManifest [(longName, [])] =
     sfHeader (sha (enc longManifest)) @
     formatManifestEntry (take 64 longName)
       (sha (enc (formatManifestEntry longName emptyDigest ''SHA-256-Digest''))) ''SHA-256-Digest''
   \<and> take 64 longName \<noteq> longName"
proof -
  have 1: "createCertSF sha enc longManifest [(longName, [])] =
     sfHeader (sha (enc longManifest)) @
     formatManifestEntry (take 64 longName)
       (sha (enc (formatManifestEntry longName emptyDigest ''SHA-256-Digest''))) ''SHA-256-Digest''"
    unfolding createCertSF_def Let_def longManifest_lines longManifest_block longName_head
    by (simp add: sfStep_def startsWith_def)
  have 2: "take 64 longName \<noteq> longName" by (simp add: longName_def)
  from 1 2 show ?thesis by simp
qed

section \<open>Properties of the bundle merge\<close>

lemma find_Some_mem: "find P xs = Some x \<Longrightarrow> x \<in> set xs \<and> P x"
  by (induction xs) (auto split: if_splits)

lemma find_map: "find P (map f xs) = map_option f (find (P \<circ> f) xs)"
  by (induction xs) auto

lemma isBaseName_iff:
  "isBaseName n = (includesStr (toLowerCase n) ''base'' \<or> includesStr (toLowerCase n) ''universal'')"
proof -
  have "includesStr (toLowerCase ''base.apk'') ''base''"
    by (simp add: toLowerCase_def lowerChar_def startsWith_def)
  then show ?thesis unfolding isBaseName_def by auto
qed

lemma endsWith_apk_nonempty: "endsWith n ''.apk'' \<Longrightarrow> n \<noteq> []"
  by (auto simp: endsWith_def)

text \<open>
  C6 as stated fails: in the bundle that lists \<open>universal.apk\<close> before \<open>base.apk\<close> the code
  selects \<open>universal.apk\<close>, where the stated precedence selects \<open>base.apk\<close>.
\<close>

theorem selectBase_no_precedence:
  "selectBase (findApkFiles sampleBundle) = ''universal.apk'' \<and>
   specSelectBase (map fst (findApkFiles sampleBundle)) = ''base.apk''"
  by (simp add: findApkFiles_def sampleBundle_def endsWith_def isBaseName_def toLowerCase_def
        lowerChar_def startsWith_def selectBase_def specSelectBase_def)

text \<open>
  C6, amended. Among the nested entries that are not directories and whose names end with
  \<open>.apk\<close>, the base is the first whose lower-case name contains \<open>base\<close> or contains
  \<open>universal\<close>, with no precedence between the two tests; when there is none, it is the
  first nested archive.
\<close>

theorem selectBase_first_match:
  assumes "findApkFiles bundleZip \<noteq> []"
  shows "selectBase (findApkFiles bundleZip) =
           (case find (\<lambda>n. includesStr (toLowerCase n) ''base'' \<or>
                            includesStr (toLowerCase n) ''universal'')
                   (map entryName (filter (\<lambda>e. endsWith (entryName e) ''.apk'' \<and> \<not> entryDir e)
                                     bundleZip)) of
              Some n \<Rightarrow> n
            | None \<Rightarrow> entryName (hd (filter (\<lambda>e. endsWith (entryName e) ''.apk'' \<and> \<not> entryDir e)
                                     bundleZip)))"
proof -
  let ?es = "filter (\<lambda>e. endsWith (entryName e) ''.apk'' \<and> \<not> entryDir e) bundleZip"
  let ?B = "\<lambda>n. includesStr (toLowerCase n) ''base'' \<or> includesStr (toLowerCase n) ''universal''"
  have ne: "?es \<noteq> []" using assms by (simp add: findApkFiles_def)
  have f: "find snd (findApkFiles bundleZip) =
           map_option (\<lambda>e. (entryName e, isBaseName (entryName e))) (find (\<lambda>e. ?B (entryName e)) ?es)"
    unfolding findApkFiles_def find_map
    by (simp add: comp_def isBaseName_iff)
  have g: "find ?B (map entryName ?es) = map_option entryName (find (\<lambda>e. ?B (entryName e)) ?es)"
    unfolding find_map by (simp add: comp_def)
  have hdeq: "fst (hd (findApkFiles bundleZip)) = entryName (hd ?es)"
    using ne by (simp add: findApkFiles_def hd_map)
  show ?thesis
  proof (cases "find (\<lambda>e. ?B (entryName e)) ?es")
    case None
    then show ?thesis unfolding selectBase_def f g hdeq by simp
  next
    case (Some e)
    then have "e \<in> set ?es" by (rule find_Some_mem [THEN conjunct1])
    then have "endsWith (entryName e) ''.apk''" by simp
    then have "entryName e \<noteq> []" by (rule endsWith_apk_nonempty)
    with Some show ?thesis unfolding selectBase_def f g hdeq by simp
  qed
qed

theorem selectBase_first_match_witness:
  "findApkFiles sampleBundle \<noteq> [] \<and> selectBase (findApkFiles sampleBundle) = ''universal.apk''"
proof -
  have h: "findApkFiles sampleBundle \<noteq> []"
    by (simp add: findApkFiles_def sampleBundle_def endsWith_def)
  from selectBase_first_match [OF h] h show ?thesis
    by (simp add: sampleBundle_def endsWith_def toLowerCase_def lowerChar_def startsWith_def)
qed

lemma find_replace_other:
  assumes "n \<noteq> path"
  shows "find (\<lambda>e. entryName e = path)
           (map (\<lambda>e. if entryName e = n then \<lparr>entryName = n, entryDir = False, entryData = dat\<rparr> else e) z)
         = find (\<lambda>e. entryName e = path) z"
  using assms by (induction z) auto

lemma find_append_other:
  "\<not> P x \<Longrightarrow> find P (z @ [x]) = find P z"
  by (induction z) auto

lemma zipFile_zipPut_other:
  "n \<noteq> path \<Longrightarrow> zipFile (zipPut z n dat) path = zipFile z path"
  unfolding zipFile_def zipPut_def
  by (simp add: find_replace_other find_append_other)

lemma zipFile_foldl_put:
  "\<forall>x \<in> set xs. entryName x \<noteq> path \<Longrightarrow>
   zipFile (foldl (\<lambda>z e. zipPut z (entryName e) (entryData e)) z xs) path = zipFile z path"
  by (induction xs arbitrary: z) (simp_all add: zipFile_zipPut_other)

lemma mergeSplit_keeps:
  assumes "zipFile mainZip path = Some e"
  shows "zipFile (fst (mergeSplit mainZip splitZip)) path = Some e"
proof -
  have "\<forall>x \<in> set (filter (\<lambda>e. \<not> entryDir e \<and> \<not> startsWith (entryName e) ''META-INF/''
                         \<and> zipFile mainZip (entryName e) = None) splitZip). entryName x \<noteq> path"
    using assms by auto
  then show ?thesis
    unfolding mergeSplit_def Let_def fst_conv
    by (subst zipFile_foldl_put) (simp_all add: assms)
qed

lemma set_zipPut:
  "e \<in> set (zipPut z n dat) \<Longrightarrow>
   e \<in> set z \<or> e = \<lparr>entryName = n, entryDir = False, entryData = dat\<rparr>"
  unfolding zipPut_def by (auto split: if_splits)

lemma set_foldl_put:
  "e \<in> set (foldl (\<lambda>z x. zipPut z (entryName x) (entryData x)) z xs) \<Longrightarrow>
   e \<in> set z \<or> (\<exists>x \<in> set xs. e = \<lparr>entryName = entryName x, entryDir = False, entryData = entryData x\<rparr>)"
proof (induction xs arbitrary: z)
  case Nil
  then show ?case by simp
next
  case (Cons x xs)
  from Cons.IH [of "zipPut z (entryName x) (entryData x)"] Cons.prems
  show ?case by (auto dest: set_zipPut)
qed

lemma mergeSplit_entries:
  assumes "e \<in> set (fst (mergeSplit mainZip splitZip))"
  shows "e \<in> set mainZip \<or> fromSplit splitZip e"
proof -
  from assms have "e \<in> set mainZip \<or>
      (\<exists>x \<in> set (filter (\<lambda>e. \<not> entryDir e \<and> \<not> startsWith (entryName e) ''META-INF/''
                         \<and> zipFile mainZip (entryName e) = None) splitZip).
          e = \<lparr>entryName = entryName x, entryDir = False, entryData = entryData x\<rparr>)"
    unfolding mergeSplit_def Let_def fst_conv by (rule set_foldl_put)
  then show ?thesis
    by (auto simp: fromSplit_def list_ex_iff)
qed

lemma mergeSplits_ok:
  assumes "mergeSplits ev onLog bundleZip base fs mainZip lg = Inr (merged, lg')"
  shows "(\<forall>path e. zipFile mainZip path = Some e \<longrightarrow> zipFile merged path = Some e) \<and>
         (\<forall>e \<in> set merged. e \<in> set mainZip \<or>
              (\<exists>z \<in> set (splitArchives ev bundleZip base fs). fromSplit z e))"
  using assms
proof (induction fs arbitrary: mainZip lg)
  case Nil
  then show ?case by simp
next
  case (Cons f fs)
  show ?case
  proof (cases "fst f = base")
    case True
    with Cons.prems have "mergeSplits ev onLog bundleZip base fs mainZip lg = Inr (merged, lg')"
      by simp
    from Cons.IH [OF this] True show ?thesis
      by (simp add: splitArchives_def)
  next
    case False
    with Cons.prems obtain lg1 be splitZip lg2 where
      be: "zipFile bundleZip (fst f) = Some be" and
      ld: "loadAsync ev (entryData be) = Inr splitZip" and
      rec: "mergeSplits ev onLog bundleZip base fs (fst (mergeSplit mainZip splitZip)) lg2
              = Inr (merged, lg')"
      by (auto split: sum.splits option.splits)
    have sa: "splitArchives ev bundleZip base (f # fs) = splitZip # splitArchives ev bundleZip base fs"
      using False be ld by (simp add: splitArchives_def)
    from Cons.IH [OF rec] have
      k: "\<forall>path e. zipFile (fst (mergeSplit mainZip splitZip)) path = Some e \<longrightarrow>
             zipFile merged path = Some e" and
      m: "\<forall>e \<in> set merged. e \<in> set (fst (mergeSplit mainZip splitZip)) \<or>
              (\<exists>z \<in> set (splitArchives ev bundleZip base fs). fromSplit z e)"
      by blast+
    show ?thesis
    proof (intro conjI allI impI ballI)
      fix path e assume "zipFile mainZip path = Some e"
      then have "zipFile (fst (mergeSplit mainZip splitZip)) path = Some e"
        by (rule mergeSplit_keeps)
      with k show "zipFile merged path = Some e" by blast
    next
      fix e assume "e \<in> set merged"
      with m have "e \<in> set (fst (mergeSplit mainZip splitZip)) \<or>
              (\<exists>z \<in> set (splitArchives ev bundleZip base fs). fromSplit z e)" by blast
      then show "e \<in> set mainZip \<or> (\<exists>z \<in> set (splitArchives ev bundleZip base (f # fs)). fromSplit z e)"
        unfolding sa by (auto dest: mergeSplit_entries)
    qed
  qed
qed

text \<open>
  C5. When \<open>processApksBundle\<close> returns the merged archive, every file of the base archive
  is in the merged archive under its path with the bytes of the base (the base wins where a
  split has the same path), and every entry of the merged archive is an entry of the base or
  was taken from a split: a file, not a directory, whose name does not begin with
  \<open>META-INF/\<close>, with the name and bytes of a file of that split.
\<close>

theorem processApksBundle_base_wins:
  assumes "processApksBundle ev onLog arrayBuf lg = Inr (merged, lg')"
  shows "\<exists>bundleZip baseEntry baseZip.
           loadAsync ev arrayBuf = Inr bundleZip \<and>
           zipFile bundleZip (selectBase (findApkFiles bundleZip)) = Some baseEntry \<and>
           loadAsync ev (entryData baseEntry) = Inr baseZip \<and>
           (\<forall>path e. zipFile baseZip path = Some e \<longrightarrow> zipFile merged path = Some e) \<and>
           (\<forall>e \<in> set merged. e \<in> set baseZip \<or>
              (\<exists>z \<in> set (splitArchives ev bundleZip (selectBase (findApkFiles bundleZip))
                                (findApkFiles bundleZip)). fromSplit z e))"
proof -
  from assms obtain bundleZip baseEntry baseZip lg3 lg4 where
    1: "loadAsync ev arrayBuf = Inr bundleZip" and
    2: "zipFile bundleZip (selectBase (findApkFiles bundleZip)) = Some baseEntry" and
    3: "loadAsync ev (entryData baseEntry) = Inr baseZip" and
    4: "mergeSplits ev onLog bundleZip (selectBase (findApkFiles bundleZip)) (findApkFiles bundleZip)
          baseZip lg3 = Inr (merged, lg4)"
    unfolding processApksBundle_def Let_def
    by (auto split: sum.splits option.splits if_splits)
  from mergeSplits_ok [OF 4] 1 2 3 show ?thesis by blast
qed

lemma sample_merge_run:
  "processApksBundle sampleEnv (\<lambda>lg. None) [0] [] = Inr (sampleMerged, sampleMergeLogs)"
  by code_simp

theorem processApksBundle_base_wins_witness:
  "processApksBundle sampleEnv (\<lambda>lg. None) [0] [] = Inr (sampleMerged, sampleMergeLogs) \<and>
   (\<exists>bundleZip baseEntry baseZip.
      loadAsync sampleEnv [0] = Inr bundleZip \<and>
      zipFile bundleZip (selectBase (findApkFiles bundleZip)) = Some baseEntry \<and>
      loadAsync sampleEnv (entryData baseEntry) = Inr baseZip \<and>
      (\<forall>path e. zipFile baseZip path = Some e \<longrightarrow> zipFile sampleMerged path = Some e) \<and>
      (\<forall>e \<in> set sampleMerged. e \<in> set baseZip \<or>
         (\<exists>z \<in> set (splitArchives sampleEnv bundleZip (selectBase (findApkFiles bundleZip))
                           (findApkFiles bundleZip)). fromSplit z e)))"
  using processApksBundle_base_wins [OF sample_merge_run] sample_merge_run by simp

section \<open>Properties of the manifest facts\<close>

text \<open>
  C8 (the code departs from the claim). \<open>getManifestInfo\<close> removes the first occurrence of
  \<open>android.permission.\<close> wherever it is in the name: the vendor permission
  \<open>com.vendor.android.permission.FOO\<close> is listed as \<open>com.vendor.FOO\<close>, not verbatim.
\<close>

theorem getManifestInfo_strips_inner_occurrence:
  "permissions (getManifestInfo samplePermissions) = [''com.vendor.FOO'', ''INTERNET'']"
  by (simp add: getManifestInfo_def samplePermissions_def infoElement_def permissionAttr_def
        strAt_def startsWith_def Let_def)

section \<open>Properties of the processor\<close>
















section \<open>Properties of the compiled-XML modifier\<close>

subsection \<open>The loop of makeDebuggable over a well-formed element stream\<close>

















subsection \<open>Counting the bytes that differ\<close>









subsection \<open>Evaluation of the sample documents\<close>
























subsection \<open>No application element\<close>



subsection \<open>An application element with a debuggable attribute\<close>




end
